theory Spec2Isabelle
  imports Main "HOL-Library.Word" "HOL-Library.Finite_Map" "HOL-Library.Signed_Division"
    "HOL-Library.Sublist"
begin

unbundle bit_operations_syntax

section \<open>Common types (common/types.h)\<close>

text \<open>
  Conventions of the embedding.
  \<^item> \<open>uintN_t\<close> is \<open>N word\<close>; arithmetic wraps as in C++.
  \<^item> \<open>std::chrono::system_clock::time_point\<close> is its count of clock ticks since the
    epoch, a signed 64-bit integer: a \<open>64 word\<close> read with \<open>sint\<close>. One tick is one
    nanosecond, the period of \<open>system_clock\<close> in libstdc++ (the sources include the Linux
    headers \<open>arpa/inet.h\<close> and \<open>netinet/*.h\<close>). The difference of two time points
    wraps around in 64 bits; \<open>duration_cast\<close> to a coarser unit is integer division
    truncating towards zero (\<open>sdiv\<close>).
  \<^item> A \<open>const uint8_t*\<close> is \<open>None\<close> for \<open>nullptr\<close> and otherwise the memory seen from
    the pointer: \<open>Some m\<close> where \<open>m i\<close> is the byte \<open>p[i]\<close>. The memory is total, so a read
    past the end of the captured frame still delivers a byte; that such a read happened is
    visible in the list of offsets the parser returns next to the packet.
  \<^item> \<open>double\<close> is modelled by exact rationals (\<open>rat\<close>): rounding is not modelled.
  \<^item> The host is little-endian (this fixes \<open>memcpy\<close> into a \<open>uint32_t\<close>, \<open>ntohs\<close> and
    \<open>inet_ntop\<close>).
\<close>

type_synonym time_point = "64 word"
type_synonym byte_ptr = "(nat \<Rightarrow> 8 word) option"

definition ticks_per_second :: int where
  "ticks_per_second = 1000000000"

definition ticks_per_millisecond :: int where
  "ticks_per_millisecond = 1000000"

text \<open>
  \<open>(a - b).count()\<close> for two time points: the signed tick count of the wrapped difference.
\<close>

definition time_diff :: "time_point \<Rightarrow> time_point \<Rightarrow> int" where
  "time_diff a b = sint (a - b)"

text \<open>\<open>duration_cast<milliseconds>(d).count()\<close> and \<open>duration_cast<seconds>(d).count()\<close>.\<close>

definition to_milliseconds :: "int \<Rightarrow> int" where
  "to_milliseconds d = d sdiv ticks_per_millisecond"

definition to_seconds :: "int \<Rightarrow> int" where
  "to_seconds d = d sdiv ticks_per_second"

text \<open>Pointer arithmetic \<open>p + k\<close> on a non-null pointer.\<close>

definition ptr_add :: "(nat \<Rightarrow> 8 word) \<Rightarrow> nat \<Rightarrow> (nat \<Rightarrow> 8 word)" where
  "ptr_add m k = (\<lambda>i. m (k + i))"

text \<open>A concrete buffer holding the bytes \<open>bs\<close>; the memory behind it reads as zero.\<close>

definition mem_of :: "8 word list \<Rightarrow> nat \<Rightarrow> 8 word" where
  "mem_of bs i = (if i < length bs then bs ! i else 0)"

datatype Protocol = UNKNOWN_PROTO | ETHERNET | IPV4 | IPV6 | TCP | UDP | ICMP | HTTP | DNS | TLS

datatype Severity = LOW | MEDIUM | HIGH | CRITICAL

record EthernetHeader =
  dst_mac :: "8 word list"
  src_mac :: "8 word list"
  ethertype :: "16 word"

record IPv4Header =
  version_ihl :: "8 word"
  tos :: "8 word"
  total_length :: "16 word"
  identification :: "16 word"
  flags_fragment :: "16 word"
  ttl :: "8 word"
  protocol :: "8 word"
  checksum :: "16 word"
  src_ip :: "32 word"
  dst_ip :: "32 word"

record TCPHeader =
  src_port :: "16 word"
  dst_port :: "16 word"
  seq_number :: "32 word"
  ack_number :: "32 word"
  data_offset :: "8 word"
  flags :: "8 word"
  window_size :: "16 word"
  checksum :: "16 word"
  urgent_pointer :: "16 word"

record UDPHeader =
  src_port :: "16 word"
  dst_port :: "16 word"
  length_udp :: "16 word"
  checksum :: "16 word"

record ParsedPacket =
  timestamp :: time_point
  packet_id :: "64 word"
  raw_data :: byte_ptr
  raw_length :: "32 word"
  eth_header :: EthernetHeader
  ip_header :: IPv4Header
  has_tcp :: bool
  has_udp :: bool
  tcp_header :: TCPHeader
  udp_header :: UDPHeader
  payload :: byte_ptr
  payload_length :: "32 word"

text \<open>\<open>ParsedPacket packet = {}\<close>: value initialisation, every field zero.\<close>

definition zero_packet :: ParsedPacket where
  "zero_packet =
     \<lparr>timestamp = 0, packet_id = 0, raw_data = None, raw_length = 0,
      eth_header = \<lparr>dst_mac = replicate 6 0, src_mac = replicate 6 0, ethertype = 0\<rparr>,
      ip_header = \<lparr>version_ihl = 0, tos = 0, total_length = 0, identification = 0,
        flags_fragment = 0, ttl = 0, protocol = 0, IPv4Header.checksum = 0,
        src_ip = 0, dst_ip = 0\<rparr>,
      has_tcp = False, has_udp = False,
      tcp_header = \<lparr>TCPHeader.src_port = 0, TCPHeader.dst_port = 0, seq_number = 0,
        ack_number = 0, data_offset = 0, flags = 0, window_size = 0,
        TCPHeader.checksum = 0, urgent_pointer = 0\<rparr>,
      udp_header = \<lparr>UDPHeader.src_port = 0, UDPHeader.dst_port = 0, length_udp = 0,
        UDPHeader.checksum = 0\<rparr>,
      payload = None, payload_length = 0\<rparr>"

text \<open>\<open>ntohs\<close> on a little-endian host swaps the two bytes.\<close>

definition ntohs :: "16 word \<Rightarrow> 16 word" where
  "ntohs w = push_bit 8 w OR drop_bit 8 w"

definition get_src_port :: "ParsedPacket \<Rightarrow> 16 word" where
  "get_src_port p =
     (if has_tcp p then ntohs (TCPHeader.src_port (tcp_header p))
      else if has_udp p then ntohs (UDPHeader.src_port (udp_header p))
      else 0)"

definition get_dst_port :: "ParsedPacket \<Rightarrow> 16 word" where
  "get_dst_port p =
     (if has_tcp p then ntohs (TCPHeader.dst_port (tcp_header p))
      else if has_udp p then ntohs (UDPHeader.dst_port (udp_header p))
      else 0)"

definition get_protocol :: "ParsedPacket \<Rightarrow> string" where
  "get_protocol p = (if has_tcp p then ''TCP'' else if has_udp p then ''UDP'' else ''OTHER'')"

section \<open>Packet parser (parser/packet_parser.cpp)\<close>

record PacketParser =
  packets_parsed :: "64 word"
  parse_errors :: "64 word"
  next_packet_id :: "64 word"

definition PacketParser_init :: PacketParser where
  "PacketParser_init = \<lparr>packets_parsed = 0, parse_errors = 0, next_packet_id = 1\<rparr>"

definition ETHER_HDR_SIZE :: nat where
  "ETHER_HDR_SIZE = 14"

definition IPPROTO_TCP_NUM :: "8 word" where
  "IPPROTO_TCP_NUM = 6"

definition IPPROTO_UDP_NUM :: "8 word" where
  "IPPROTO_UDP_NUM = 17"

text \<open>\<open>(a << 8) | b\<close> stored in a \<open>uint16_t\<close>, and the four-byte form stored in a \<open>uint32_t\<close>.\<close>

definition be16 :: "8 word \<Rightarrow> 8 word \<Rightarrow> 16 word" where
  "be16 a b = push_bit 8 (ucast a) OR ucast b"

definition be32 :: "8 word \<Rightarrow> 8 word \<Rightarrow> 8 word \<Rightarrow> 8 word \<Rightarrow> 32 word" where
  "be32 a b c d =
     push_bit 24 (ucast a) OR push_bit 16 (ucast b) OR push_bit 8 (ucast c) OR ucast d"

text \<open>\<open>memcpy(&x, p, 4)\<close> into a \<open>uint32_t\<close> on a little-endian host.\<close>

definition memcpy32 :: "8 word \<Rightarrow> 8 word \<Rightarrow> 8 word \<Rightarrow> 8 word \<Rightarrow> 32 word" where
  "memcpy32 a b c d =
     ucast a OR push_bit 8 (ucast b) OR push_bit 16 (ucast c) OR push_bit 24 (ucast d)"

definition validate_packet :: "byte_ptr \<Rightarrow> 32 word \<Rightarrow> bool" where
  "validate_packet data len = (data \<noteq> None \<and> 34 \<le> len)"

text \<open>
  Each layer parser returns its verdict, the packet as it left it, and the offsets it read,
  counted from the pointer it was given.
\<close>

definition parse_ethernet ::
  "(nat \<Rightarrow> 8 word) \<Rightarrow> 32 word \<Rightarrow> ParsedPacket \<Rightarrow> bool \<times> ParsedPacket \<times> nat list" where
  "parse_ethernet data len packet =
     (if len < of_nat ETHER_HDR_SIZE then (False, packet, [])
      else
        let eth = \<lparr>dst_mac = map data [0..<6], src_mac = map data [6..<12],
                   ethertype = be16 (data 12) (data 13)\<rparr>
        in (ethertype eth = 0x0800, packet\<lparr>eth_header := eth\<rparr>, [0..<14]))"

definition parse_ipv4 ::
  "(nat \<Rightarrow> 8 word) \<Rightarrow> 32 word \<Rightarrow> ParsedPacket \<Rightarrow> bool \<times> ParsedPacket \<times> nat list" where
  "parse_ipv4 data len packet =
     (if len < 20 then (False, packet, [])
      else
        let packet = packet\<lparr>ip_header := (ip_header packet)\<lparr>version_ihl := data 0\<rparr>\<rparr>;
            version = drop_bit 4 (data 0) AND 0x0F
        in if version \<noteq> 4 then (False, packet, [0])
           else
             (True,
              packet\<lparr>ip_header :=
                \<lparr>version_ihl = data 0, tos = data 1,
                 total_length = be16 (data 2) (data 3),
                 identification = be16 (data 4) (data 5),
                 flags_fragment = be16 (data 6) (data 7),
                 ttl = data 8, protocol = data 9,
                 IPv4Header.checksum = be16 (data 10) (data 11),
                 src_ip = memcpy32 (data 12) (data 13) (data 14) (data 15),
                 dst_ip = memcpy32 (data 16) (data 17) (data 18) (data 19)\<rparr>\<rparr>,
              [0..<20]))"

definition parse_tcp ::
  "(nat \<Rightarrow> 8 word) \<Rightarrow> 32 word \<Rightarrow> ParsedPacket \<Rightarrow> bool \<times> ParsedPacket \<times> nat list" where
  "parse_tcp data len packet =
     (if len < 20 then (False, packet, [])
      else
        let hdr = \<lparr>TCPHeader.src_port = be16 (data 0) (data 1),
                   TCPHeader.dst_port = be16 (data 2) (data 3),
                   seq_number = be32 (data 4) (data 5) (data 6) (data 7),
                   ack_number = be32 (data 8) (data 9) (data 10) (data 11),
                   data_offset = drop_bit 4 (data 12) AND 0x0F,
                   flags = data 13 AND 0x3F,
                   window_size = be16 (data 14) (data 15),
                   TCPHeader.checksum = be16 (data 16) (data 17),
                   urgent_pointer = be16 (data 18) (data 19)\<rparr>;
            tcp_header_length = (ucast (data_offset hdr) :: 32 word) * 4;
            packet = packet\<lparr>tcp_header := hdr\<rparr>
        in if tcp_header_length < len
           then (True, packet\<lparr>payload := Some (ptr_add data (unat tcp_header_length)),
                              payload_length := len - tcp_header_length\<rparr>, [0..<20])
           else (True, packet\<lparr>payload := None, payload_length := 0\<rparr>, [0..<20]))"

definition parse_udp ::
  "(nat \<Rightarrow> 8 word) \<Rightarrow> 32 word \<Rightarrow> ParsedPacket \<Rightarrow> bool \<times> ParsedPacket \<times> nat list" where
  "parse_udp data len packet =
     (if len < 8 then (False, packet, [])
      else
        let hdr = \<lparr>UDPHeader.src_port = be16 (data 0) (data 1),
                   UDPHeader.dst_port = be16 (data 2) (data 3),
                   length_udp = be16 (data 4) (data 5),
                   UDPHeader.checksum = be16 (data 6) (data 7)\<rparr>;
            packet = packet\<lparr>udp_header := hdr\<rparr>
        in if 8 < len
           then (True, packet\<lparr>payload := Some (ptr_add data 8),
                              payload_length := len - 8\<rparr>, [0..<8])
           else (True, packet\<lparr>payload := None, payload_length := 0\<rparr>, [0..<8]))"

text \<open>
  \<open>PacketParser::parse\<close>. The result is the parser with its counters updated, the packet,
  and every offset of \<open>data\<close> that was read, in order.
\<close>

definition parse ::
  "byte_ptr \<Rightarrow> 32 word \<Rightarrow> time_point \<Rightarrow> PacketParser \<Rightarrow> PacketParser \<times> ParsedPacket \<times> nat list"
  where
  "parse data len ts s =
     (let packet = zero_packet\<lparr>timestamp := ts, packet_id := next_packet_id s,
                                raw_data := data, raw_length := len\<rparr>;
          s = s\<lparr>next_packet_id := next_packet_id s + 1\<rparr>;
          failed = s\<lparr>parse_errors := parse_errors s + 1\<rparr>
      in if \<not> validate_packet data len then (failed, packet, [])
         else
           case data of
             None \<Rightarrow> (failed, packet, [])
           | Some mem \<Rightarrow>
               (case parse_ethernet mem len packet of
                  (ok_eth, packet, r_eth) \<Rightarrow>
                    if \<not> ok_eth then (failed, packet, r_eth)
                    else
                      (case parse_ipv4 (ptr_add mem ETHER_HDR_SIZE)
                              (len - of_nat ETHER_HDR_SIZE) packet of
                         (ok_ip, packet, r_ip) \<Rightarrow>
                           let r_ip = r_eth @ map ((+) ETHER_HDR_SIZE) r_ip in
                           if \<not> ok_ip then (failed, packet, r_ip)
                           else
                             let ip_header_length =
                                   (version_ihl (ip_header packet) AND 0x0F) * 4;
                                 off = ETHER_HDR_SIZE + unat ip_header_length;
                                 transport_data = ptr_add mem off;
                                 transport_length =
                                   len - of_nat ETHER_HDR_SIZE - ucast ip_header_length;
                                 parsed = s\<lparr>packets_parsed := packets_parsed s + 1\<rparr>
                             in
                               if protocol (ip_header packet) = IPPROTO_TCP_NUM then
                                 (case parse_tcp transport_data transport_length packet of
                                    (ok, packet, r) \<Rightarrow>
                                      (parsed,
                                       if ok then packet\<lparr>has_tcp := True\<rparr> else packet,
                                       r_ip @ map ((+) off) r))
                               else if protocol (ip_header packet) = IPPROTO_UDP_NUM then
                                 (case parse_udp transport_data transport_length packet of
                                    (ok, packet, r) \<Rightarrow>
                                      (parsed,
                                       if ok then packet\<lparr>has_udp := True\<rparr> else packet,
                                       r_ip @ map ((+) off) r))
                               else (parsed, packet, r_ip))))"

text \<open>A run of the parser over a sequence of captured frames.\<close>

fun parse_all ::
  "PacketParser \<Rightarrow> (byte_ptr \<times> 32 word \<times> time_point) list \<Rightarrow> PacketParser \<times> ParsedPacket list"
  where
  "parse_all s [] = (s, [])"
| "parse_all s ((data, len, ts) # rest) =
     (case parse data len ts s of
        (s', p, _) \<Rightarrow> (case parse_all s' rest of (s'', ps) \<Rightarrow> (s'', p # ps)))"

text \<open>
  The three checks of the claims, read off the input: at least 34 bytes, ethertype
  \<open>0x0800\<close> at offset 12, version nibble 4 at offset 14.
\<close>

definition passes_checks :: "byte_ptr \<Rightarrow> 32 word \<Rightarrow> bool" where
  "passes_checks data len =
     (case data of
        None \<Rightarrow> False
      | Some mem \<Rightarrow>
          34 \<le> len \<and> be16 (mem 12) (mem 13) = 0x0800 \<and> drop_bit 4 (mem 14) AND 0x0F = 4)"

section \<open>Connection tracker (features/connection_tracker.cpp)\<close>

definition TCP_FIN :: "8 word" where "TCP_FIN = 0x01"
definition TCP_SYN :: "8 word" where "TCP_SYN = 0x02"
definition TCP_RST :: "8 word" where "TCP_RST = 0x04"
definition TCP_PSH :: "8 word" where "TCP_PSH = 0x08"
definition TCP_ACK :: "8 word" where "TCP_ACK = 0x10"
definition TCP_URG :: "8 word" where "TCP_URG = 0x20"

record ConnectionKey =
  src_ip :: "32 word"
  dst_ip :: "32 word"
  src_port :: "16 word"
  dst_port :: "16 word"
  protocol :: "8 word"

datatype ConnectionState = SYN_SENT | SYN_RECEIVED | ESTABLISHED | FIN_WAIT | CLOSED | UNKNOWN

text \<open>
  \<open>FlowStats\<close> without its ten derived members, which only \<open>update_computed_features\<close>
  writes.
\<close>

record FlowStats =
  start_time :: time_point
  last_seen :: time_point
  duration :: rat
  fwd_packets :: "64 word"
  fwd_bytes :: "64 word"
  fwd_iat :: "rat list"
  fwd_pkt_lengths :: "32 word list"
  bwd_packets :: "64 word"
  bwd_bytes :: "64 word"
  bwd_iat :: "rat list"
  bwd_pkt_lengths :: "32 word list"
  syn_count :: "32 word"
  ack_count :: "32 word"
  fin_count :: "32 word"
  rst_count :: "32 word"
  psh_count :: "32 word"
  urg_count :: "32 word"
  state :: ConnectionState

record ConnectionTracker =
  connections :: "(ConnectionKey, FlowStats) fmap"
  timeout_seconds :: "32 word"
  max_connections :: "32 word"
  total_connections :: "64 word"
  expired_connections :: "64 word"

definition ConnectionTracker_init :: "32 word \<Rightarrow> 32 word \<Rightarrow> ConnectionTracker" where
  "ConnectionTracker_init timeout maxc =
     \<lparr>connections = fmempty, timeout_seconds = timeout, max_connections = maxc,
      total_connections = 0, expired_connections = 0\<rparr>"

text \<open>\<open>connections_.size()\<close>\<close>

definition size_of :: "(ConnectionKey, FlowStats) fmap \<Rightarrow> nat" where
  "size_of m = fcard (fmdom m)"

definition create_key :: "ParsedPacket \<Rightarrow> ConnectionKey" where
  "create_key packet =
     \<lparr>src_ip = IPv4Header.src_ip (ip_header packet),
      dst_ip = IPv4Header.dst_ip (ip_header packet),
      src_port = get_src_port packet,
      dst_port = get_dst_port packet,
      protocol = IPv4Header.protocol (ip_header packet)\<rparr>"

definition update_tcp_state :: "FlowStats \<Rightarrow> 8 word \<Rightarrow> FlowStats" where
  "update_tcp_state flow fl =
     (case state flow of
        UNKNOWN \<Rightarrow>
          if fl AND TCP_SYN \<noteq> 0 \<and> \<not> (fl AND TCP_ACK \<noteq> 0)
          then flow\<lparr>state := SYN_SENT\<rparr> else flow
      | SYN_SENT \<Rightarrow>
          if fl AND TCP_SYN \<noteq> 0 \<and> fl AND TCP_ACK \<noteq> 0
          then flow\<lparr>state := SYN_RECEIVED\<rparr> else flow
      | SYN_RECEIVED \<Rightarrow>
          if fl AND TCP_ACK \<noteq> 0 then flow\<lparr>state := ESTABLISHED\<rparr> else flow
      | ESTABLISHED \<Rightarrow>
          if fl AND TCP_FIN \<noteq> 0 then flow\<lparr>state := FIN_WAIT\<rparr>
          else if fl AND TCP_RST \<noteq> 0 then flow\<lparr>state := CLOSED\<rparr>
          else flow
      | FIN_WAIT \<Rightarrow>
          if fl AND TCP_FIN \<noteq> 0 \<or> fl AND TCP_RST \<noteq> 0
          then flow\<lparr>state := CLOSED\<rparr> else flow
      | CLOSED \<Rightarrow> flow)"

text \<open>
  The clock is an input. \<open>is_expired\<close> reads \<open>system_clock::now()\<close> once in every call:
  \<open>now\<close> is that reading. The scan of \<open>cleanup_expired\<close> calls \<open>is_expired\<close> once
  for every entry: \<open>clock k\<close> is the reading in the call for the entry of key \<open>k\<close>.
\<close>

definition is_expired :: "time_point \<Rightarrow> 32 word \<Rightarrow> FlowStats \<Rightarrow> bool" where
  "is_expired now timeout flow =
     (let age = to_seconds (time_diff now (last_seen flow))
      in uint timeout < age \<or> state flow = CLOSED)"

definition cleanup_expired ::
  "(ConnectionKey \<Rightarrow> time_point) \<Rightarrow> ConnectionTracker \<Rightarrow> ConnectionTracker" where
  "cleanup_expired clock t =
     (let kept = fmfilter
            (\<lambda>k. case fmlookup (connections t) k of
                    None \<Rightarrow> False
                  | Some flow \<Rightarrow> \<not> is_expired (clock k) (timeout_seconds t) flow)
            (connections t)
      in t\<lparr>connections := kept,
           expired_connections :=
             expired_connections t + of_nat (size_of (connections t) - size_of kept)\<rparr>)"

text \<open>The entry \<open>update\<close> creates for a key it does not find (lines 47 to 62).\<close>

definition new_flow :: "ParsedPacket \<Rightarrow> FlowStats" where
  "new_flow packet =
     \<lparr>start_time = ParsedPacket.timestamp packet,
      last_seen = ParsedPacket.timestamp packet, duration = 0,
      fwd_packets = 0, fwd_bytes = 0, fwd_iat = [], fwd_pkt_lengths = [],
      bwd_packets = 0, bwd_bytes = 0, bwd_iat = [], bwd_pkt_lengths = [],
      syn_count = 0, ack_count = 0, fin_count = 0, rst_count = 0, psh_count = 0,
      urg_count = 0, state = UNKNOWN\<rparr>"

text \<open>\<open>if (cond) counter++;\<close>\<close>

definition count_if :: "bool \<Rightarrow> 'a::len word \<Rightarrow> 'a word" where
  "count_if cond counter = (if cond then counter + 1 else counter)"

text \<open>
  What \<open>update\<close> does to the entry once it holds a reference to it (lines 69 to 115).
  The inter-arrival time is appended when the packet count, already incremented, is above 1.
\<close>

definition update_flow :: "ParsedPacket \<Rightarrow> FlowStats \<Rightarrow> FlowStats" where
  "update_flow packet flow =
     (let duration_ms = to_milliseconds (time_diff (ParsedPacket.timestamp packet)
                                            (last_seen flow));
          iat = of_int duration_ms / 1000;
          is_forward = True;
          flow =
            (if is_forward then
               flow\<lparr>fwd_packets := fwd_packets flow + 1,
                    fwd_bytes := fwd_bytes flow + ucast (raw_length packet),
                    fwd_iat := (if 1 < fwd_packets flow + 1 then fwd_iat flow @ [iat]
                                else fwd_iat flow),
                    fwd_pkt_lengths := fwd_pkt_lengths flow @ [raw_length packet]\<rparr>
             else
               flow\<lparr>bwd_packets := bwd_packets flow + 1,
                    bwd_bytes := bwd_bytes flow + ucast (raw_length packet),
                    bwd_iat := (if 1 < bwd_packets flow + 1 then bwd_iat flow @ [iat]
                                else bwd_iat flow),
                    bwd_pkt_lengths := bwd_pkt_lengths flow @ [raw_length packet]\<rparr>);
          flow =
            (if has_tcp packet then
               let fl = flags (tcp_header packet)
               in update_tcp_state
                    (flow\<lparr>syn_count := count_if (fl AND TCP_SYN \<noteq> 0) (syn_count flow),
                          ack_count := count_if (fl AND TCP_ACK \<noteq> 0) (ack_count flow),
                          fin_count := count_if (fl AND TCP_FIN \<noteq> 0) (fin_count flow),
                          rst_count := count_if (fl AND TCP_RST \<noteq> 0) (rst_count flow),
                          psh_count := count_if (fl AND TCP_PSH \<noteq> 0) (psh_count flow),
                          urg_count := count_if (fl AND TCP_URG \<noteq> 0) (urg_count flow)\<rparr>)
                    fl
             else flow);
          flow = flow\<lparr>last_seen := ParsedPacket.timestamp packet\<rparr>
      in flow\<lparr>duration :=
                of_int (to_milliseconds (time_diff (last_seen flow) (start_time flow))) /
                1000\<rparr>)"

text \<open>
  \<open>ConnectionTracker::update\<close>; \<open>clock\<close> gives the clock readings of the scan of
  \<open>cleanup_expired\<close>, should the update run it.
\<close>

definition update ::
  "(ConnectionKey \<Rightarrow> time_point) \<Rightarrow> ParsedPacket \<Rightarrow> ConnectionTracker \<Rightarrow> ConnectionTracker"
  where
  "update clock packet t =
     (let key = create_key packet in
      case fmlookup (connections t) key of
        Some flow \<Rightarrow>
          t\<lparr>connections := fmupd key (update_flow packet flow) (connections t)\<rparr>
      | None \<Rightarrow>
          let t = (if unat (max_connections t) \<le> size_of (connections t)
                   then cleanup_expired clock t else t);
              flow = new_flow packet;
              t = t\<lparr>connections := fmupd key flow (connections t),
                    total_connections := total_connections t + 1\<rparr>
          in t\<lparr>connections := fmupd key (update_flow packet flow) (connections t)\<rparr>)"

text \<open>A run of the tracker: each packet comes with the clock of its update.\<close>

fun update_all ::
  "ConnectionTracker \<Rightarrow> ((ConnectionKey \<Rightarrow> time_point) \<times> ParsedPacket) list \<Rightarrow>
     ConnectionTracker" where
  "update_all t [] = t"
| "update_all t ((clock, packet) # rest) = update_all (update clock packet t) rest"

text \<open>A clock that reads \<open>now\<close> at every entry.\<close>

definition const_clock :: "time_point \<Rightarrow> ConnectionKey \<Rightarrow> time_point" where
  "const_clock now k = now"




section \<open>Rule engine (rules/rule_engine.cpp)\<close>

record SignatureRule =
  rule_id :: "32 word"
  name :: string
  description :: string
  protocol :: Protocol
  src_ip_filter :: string
  dst_ip_filter :: string
  src_ports :: "16 word list"
  dst_ports :: "16 word list"
  tcp_flags_mask :: "8 word"
  tcp_flags_value :: "8 word"
  content_patterns :: "string list"
  regex_patterns :: "string list"
  severity :: Severity
  action :: string
  enabled :: bool

record Alert =
  alert_id :: "64 word"
  timestamp :: time_point
  rule_id :: "32 word"
  rule_name :: string
  severity :: Severity
  packet_id :: "64 word"
  src_ip :: string
  dst_ip :: string
  src_port :: "16 word"
  dst_port :: "16 word"
  protocol :: string
  description :: string
  matched_content :: string

text \<open>The regex cache only memoises compilation and is left out.\<close>

record RuleEngine =
  rules :: "SignatureRule list"
  packets_evaluated :: "64 word"
  alerts_generated :: "64 word"
  rule_matches :: "64 word"
  next_alert_id :: "64 word"

definition RuleEngine_init :: RuleEngine where
  "RuleEngine_init =
     \<lparr>rules = [], packets_evaluated = 0, alerts_generated = 0, rule_matches = 0,
      next_alert_id = 1\<rparr>"

definition add_rule :: "SignatureRule \<Rightarrow> RuleEngine \<Rightarrow> RuleEngine" where
  "add_rule rule e = e\<lparr>rules := rules e @ [rule]\<rparr>"

text \<open>
  A default-constructed \<open>SignatureRule\<close>: its strings and vectors are empty, its scalar
  members hold whatever \<open>u\<close> holds (they are not initialised).
\<close>

definition default_constructed :: "SignatureRule \<Rightarrow> SignatureRule" where
  "default_constructed u =
     u\<lparr>name := [], SignatureRule.description := [], src_ip_filter := [], dst_ip_filter := [],
       src_ports := [], dst_ports := [], content_patterns := [], regex_patterns := [],
       action := []\<rparr>"

text \<open>
  \<open>load_rules\<close> ignores its file name and adds six rules; \<open>u i\<close> stands for the
  uninitialised object the \<open>i\<close>-th of them starts from.
\<close>

definition load_rules :: "(nat \<Rightarrow> SignatureRule) \<Rightarrow> RuleEngine \<Rightarrow> RuleEngine" where
  "load_rules u e =
     (let ssh_scan = (default_constructed (u 1))
            \<lparr>SignatureRule.rule_id := 1001, name := ''SSH Scan Detection'',
             SignatureRule.description := ''Multiple SSH connection attempts detected'',
             SignatureRule.protocol := TCP, src_ip_filter := ''any'',
             dst_ip_filter := ''any'', dst_ports := [22],
             tcp_flags_mask := TCP_SYN, tcp_flags_value := TCP_SYN,
             SignatureRule.severity := MEDIUM, action := ''alert'', enabled := True\<rparr>;
          sql_injection = (default_constructed (u 2))
            \<lparr>SignatureRule.rule_id := 1002, name := ''SQL Injection Attempt'',
             SignatureRule.description := ''Possible SQL injection in HTTP request'',
             SignatureRule.protocol := TCP, src_ip_filter := ''any'',
             dst_ip_filter := ''any'', dst_ports := [80, 443, 8080],
             content_patterns := [''union select'', ''or 1=1'', [CHR 0x27] @ '' or '' @
               [CHR 0x27] @ ''1'' @ [CHR 0x27] @ ''='' @ [CHR 0x27] @ ''1''],
             SignatureRule.severity := HIGH, action := ''alert'', enabled := True\<rparr>;
          port_scan = (default_constructed (u 3))
            \<lparr>SignatureRule.rule_id := 1003, name := ''Port Scan Detection'',
             SignatureRule.description := ''SYN packet to commonly scanned port'',
             SignatureRule.protocol := TCP, src_ip_filter := ''any'',
             dst_ip_filter := ''any'', dst_ports := [21, 22, 23, 25, 80, 443, 3389, 8080],
             tcp_flags_mask := TCP_SYN OR TCP_ACK, tcp_flags_value := TCP_SYN,
             SignatureRule.severity := MEDIUM, action := ''alert'', enabled := True\<rparr>;
          ftp_auth = (default_constructed (u 4))
            \<lparr>SignatureRule.rule_id := 1004, name := ''FTP Authentication Attempt'',
             SignatureRule.description := ''FTP USER or PASS command detected'',
             SignatureRule.protocol := TCP, src_ip_filter := ''any'',
             dst_ip_filter := ''any'', dst_ports := [21],
             content_patterns := [''USER '', ''PASS ''],
             SignatureRule.severity := LOW, action := ''alert'', enabled := True\<rparr>;
          dns_query = (default_constructed (u 5))
            \<lparr>SignatureRule.rule_id := 1005, name := ''DNS Query'',
             SignatureRule.description := ''DNS query packet detected'',
             SignatureRule.protocol := UDP, src_ip_filter := ''any'',
             dst_ip_filter := ''any'', dst_ports := [53],
             SignatureRule.severity := LOW, action := ''log'', enabled := False\<rparr>;
          telnet = (default_constructed (u 6))
            \<lparr>SignatureRule.rule_id := 1006, name := ''Telnet Connection'',
             SignatureRule.description := ''Unencrypted Telnet connection detected'',
             SignatureRule.protocol := TCP, src_ip_filter := ''any'',
             dst_ip_filter := ''any'', dst_ports := [23],
             SignatureRule.severity := MEDIUM, action := ''alert'', enabled := True\<rparr>
      in add_rule telnet (add_rule dns_query (add_rule ftp_auth (add_rule port_scan
           (add_rule sql_injection (add_rule ssh_scan e))))))"

text \<open>\<open>enable_rule\<close>: the loop stops at the first rule with the given id.\<close>

fun enable_first :: "32 word \<Rightarrow> bool \<Rightarrow> SignatureRule list \<Rightarrow> SignatureRule list" where
  "enable_first rid en [] = []"
| "enable_first rid en (rule # rest) =
     (if SignatureRule.rule_id rule = rid then rule\<lparr>enabled := en\<rparr> # rest
      else rule # enable_first rid en rest)"

definition enable_rule :: "32 word \<Rightarrow> bool \<Rightarrow> RuleEngine \<Rightarrow> RuleEngine" where
  "enable_rule rid en e = e\<lparr>rules := enable_first rid en (rules e)\<rparr>"

text \<open>Decimal digits of a byte, and \<open>inet_ntop(AF_INET, ...)\<close> on a little-endian host.\<close>

definition digit :: "nat \<Rightarrow> char" where
  "digit d = char_of (48 + d)"

definition dec_byte :: "8 word \<Rightarrow> string" where
  "dec_byte b =
     (let n = unat b
      in (if 100 \<le> n then [digit (n div 100)] else []) @
         (if 10 \<le> n then [digit (n div 10 mod 10)] else []) @ [digit (n mod 10)])"

definition inet_ntop :: "32 word \<Rightarrow> string" where
  "inet_ntop a =
     dec_byte (ucast a) @ ''.'' @ dec_byte (ucast (drop_bit 8 a)) @ ''.'' @
     dec_byte (ucast (drop_bit 16 a)) @ ''.'' @ dec_byte (ucast (drop_bit 24 a))"

definition get_src_ip :: "ParsedPacket \<Rightarrow> string" where
  "get_src_ip p = inet_ntop (IPv4Header.src_ip (ip_header p))"

definition get_dst_ip :: "ParsedPacket \<Rightarrow> string" where
  "get_dst_ip p = inet_ntop (IPv4Header.dst_ip (ip_header p))"

definition match_ip_filter :: "string \<Rightarrow> string \<Rightarrow> bool" where
  "match_ip_filter ip filter_str =
     (if filter_str = ''any'' then True else if filter_str = ip then True else False)"

definition match_port :: "16 word \<Rightarrow> 16 word list \<Rightarrow> bool" where
  "match_port port port_list = (if port_list = [] then True else port \<in> set port_list)"

definition match_tcp_flags :: "8 word \<Rightarrow> 8 word \<Rightarrow> 8 word \<Rightarrow> bool" where
  "match_tcp_flags packet_flags flag_mask flag_value = (packet_flags AND flag_mask = flag_value)"

text \<open>
  \<open>::tolower\<close> in the C locale (only A to Z change), and
  \<open>std::string::find(pat) != npos\<close>.
\<close>

definition tolower :: "char \<Rightarrow> char" where
  "tolower c =
     (let n = (of_char c :: nat) in if 65 \<le> n \<and> n \<le> 90 then char_of (n + 32) else c)"

fun find_str :: "string \<Rightarrow> string \<Rightarrow> bool" where
  "find_str [] pat = (pat = [])"
| "find_str (c # s) pat = (prefix pat (c # s) \<or> find_str s pat)"

text \<open>\<open>std::string(payload, min(payload_len, 1024u))\<close>\<close>

definition payload_string :: "(nat \<Rightarrow> 8 word) \<Rightarrow> 32 word \<Rightarrow> string" where
  "payload_string mem payload_len =
     map (\<lambda>i. char_of (unat (mem i))) [0..<unat (min payload_len 1024)]"

definition match_content :: "byte_ptr \<Rightarrow> 32 word \<Rightarrow> string list \<Rightarrow> bool" where
  "match_content payload_ptr payload_len patterns =
     (case payload_ptr of
        None \<Rightarrow> False
      | Some mem \<Rightarrow>
          if patterns = [] \<or> payload_len = 0 then False
          else
            let payload_str = map tolower (payload_string mem payload_len)
            in list_ex (\<lambda>pattern. find_str payload_str (map tolower pattern)) patterns)"

text \<open>
  \<open>match_regex\<close>. The regular-expression library is a parameter: \<open>regex_search pattern s\<close>
  is \<open>None\<close> when \<open>pattern\<close> does not compile (\<open>std::regex_error\<close>) and otherwise tells
  whether the case-insensitive search in \<open>s\<close> succeeds.
\<close>

definition match_regex ::
  "(string \<Rightarrow> string \<Rightarrow> bool option) \<Rightarrow> byte_ptr \<Rightarrow> 32 word \<Rightarrow> string list \<Rightarrow> bool" where
  "match_regex regex_search payload_ptr payload_len patterns =
     (case payload_ptr of
        None \<Rightarrow> False
      | Some mem \<Rightarrow>
          if patterns = [] \<or> payload_len = 0 then False
          else
            let payload_str = payload_string mem payload_len
            in list_ex (\<lambda>pattern. regex_search pattern payload_str = Some True) patterns)"

definition create_alert ::
  "SignatureRule \<Rightarrow> ParsedPacket \<Rightarrow> string \<Rightarrow> RuleEngine \<Rightarrow> Alert \<times> RuleEngine" where
  "create_alert rule packet matched e =
     (\<lparr>alert_id = next_alert_id e,
       Alert.timestamp = ParsedPacket.timestamp packet,
       Alert.rule_id = SignatureRule.rule_id rule,
       rule_name = name rule,
       Alert.severity = SignatureRule.severity rule,
       Alert.packet_id = ParsedPacket.packet_id packet,
       Alert.src_ip = get_src_ip packet,
       Alert.dst_ip = get_dst_ip packet,
       Alert.src_port = get_src_port packet,
       Alert.dst_port = get_dst_port packet,
       Alert.protocol = get_protocol packet,
       Alert.description = SignatureRule.description rule,
       matched_content = matched\<rparr>,
      e\<lparr>next_alert_id := next_alert_id e + 1\<rparr>)"

text \<open>
  The body of the loop of \<open>evaluate\<close> for one rule, up to the comment "all conditions
  matched": \<open>None\<close> where the body leaves through a \<open>continue\<close>, otherwise the value of
  \<open>matched_content\<close>.
\<close>

definition match_rule :: "ParsedPacket \<Rightarrow> SignatureRule \<Rightarrow> string option" where
  "match_rule packet rule =
     (if \<not> enabled rule then None
      else if SignatureRule.protocol rule = TCP \<and> \<not> has_tcp packet then None
      else if SignatureRule.protocol rule = UDP \<and> \<not> has_udp packet then None
      else if src_ip_filter rule \<noteq> ''any'' \<and>
              \<not> match_ip_filter (get_src_ip packet) (src_ip_filter rule) then None
      else if dst_ip_filter rule \<noteq> ''any'' \<and>
              \<not> match_ip_filter (get_dst_ip packet) (dst_ip_filter rule) then None
      else if src_ports rule \<noteq> [] \<and>
              \<not> match_port (get_src_port packet) (src_ports rule) then None
      else if dst_ports rule \<noteq> [] \<and>
              \<not> match_port (get_dst_port packet) (dst_ports rule) then None
      else if has_tcp packet \<and> tcp_flags_mask rule \<noteq> 0 \<and>
              \<not> match_tcp_flags (flags (tcp_header packet)) (tcp_flags_mask rule)
                  (tcp_flags_value rule) then None
      else if content_patterns rule \<noteq> [] then
        (if payload packet \<noteq> None \<and> 0 < payload_length packet then
           (if \<not> match_content (payload packet) (payload_length packet)
                   (content_patterns rule) then None
            else
              (case find (\<lambda>pattern. match_content (payload packet) (payload_length packet)
                            [pattern]) (content_patterns rule) of
                 Some pattern \<Rightarrow> Some pattern
               | None \<Rightarrow> Some []))
         else None)
      else Some [])"

fun evaluate_loop ::
  "SignatureRule list \<Rightarrow> ParsedPacket \<Rightarrow> RuleEngine \<Rightarrow> Alert list \<Rightarrow> RuleEngine \<times> Alert list"
  where
  "evaluate_loop [] packet e alerts = (e, alerts)"
| "evaluate_loop (rule # rest) packet e alerts =
     (case match_rule packet rule of
        None \<Rightarrow> evaluate_loop rest packet e alerts
      | Some matched \<Rightarrow>
          (case create_alert rule packet matched (e\<lparr>rule_matches := rule_matches e + 1\<rparr>) of
             (alert, e') \<Rightarrow> evaluate_loop rest packet e' (alerts @ [alert])))"

definition evaluate :: "ParsedPacket \<Rightarrow> RuleEngine \<Rightarrow> RuleEngine \<times> Alert list" where
  "evaluate packet e =
     (case evaluate_loop (rules e) packet
             (e\<lparr>packets_evaluated := packets_evaluated e + 1\<rparr>) [] of
        (e', alerts) \<Rightarrow>
          (e'\<lparr>alerts_generated := alerts_generated e' + of_nat (length alerts)\<rparr>, alerts))"

text \<open>A run of the engine: the alerts of all packets, in the order they are emitted.\<close>

fun evaluate_all :: "RuleEngine \<Rightarrow> ParsedPacket list \<Rightarrow> RuleEngine \<times> Alert list" where
  "evaluate_all e [] = (e, [])"
| "evaluate_all e (packet # rest) =
     (case evaluate packet e of
        (e', alerts) \<Rightarrow>
          (case evaluate_all e' rest of (e'', later) \<Rightarrow> (e'', alerts @ later)))"

text \<open>The rules for which the loop body of \<open>evaluate\<close> reaches its end.\<close>

abbreviation matching :: "ParsedPacket \<Rightarrow> SignatureRule list \<Rightarrow> SignatureRule list" where
  "matching p rs \<equiv> filter (\<lambda>r. match_rule p r \<noteq> None) rs"

section \<open>Feature extractor (features/feature_extractor.cpp)\<close>

text \<open>
  The members of \<open>FeatureVector\<close> that the segment-size and bulk-transfer blocks of
  \<open>extract\<close> assign, under the names \<open>extract\<close> uses.
\<close>

record FeatureVector =
  avg_fwd_segment_size :: rat
  avg_bwd_segment_size :: rat
  fwd_bulk_rate_avg :: rat
  bwd_bulk_rate_avg :: rat
  fwd_bulk_size_avg :: rat
  bwd_bulk_size_avg :: rat
  fwd_bulk_packets_avg :: rat
  bwd_bulk_packets_avg :: rat

text \<open>Conversion of a \<open>uint64_t\<close> to \<open>double\<close>.\<close>

definition to_double :: "64 word \<Rightarrow> rat" where
  "to_double w = of_nat (unat w)"

text \<open>\<open>FeatureExtractor::extract\<close>, restricted to those members.\<close>

definition extract_features :: "FlowStats \<Rightarrow> FeatureVector" where
  "extract_features flow =
     (let features =
            \<lparr>avg_fwd_segment_size =
               (if 0 < fwd_packets flow
                then to_double (fwd_bytes flow) / to_double (fwd_packets flow) else 0),
             avg_bwd_segment_size =
               (if 0 < bwd_packets flow
                then to_double (bwd_bytes flow) / to_double (bwd_packets flow) else 0),
             fwd_bulk_rate_avg = 0, bwd_bulk_rate_avg = 0,
             fwd_bulk_size_avg = 0, bwd_bulk_size_avg = 0,
             fwd_bulk_packets_avg = 0, bwd_bulk_packets_avg = 0\<rparr>;
          features =
            (if 4 \<le> fwd_packets flow \<and> 0 < duration flow
             then features\<lparr>fwd_bulk_rate_avg := to_double (fwd_bytes flow) / duration flow,
                           fwd_bulk_size_avg := avg_fwd_segment_size features,
                           fwd_bulk_packets_avg := to_double (fwd_packets flow) / 4\<rparr>
             else features);
          features =
            (if 4 \<le> bwd_packets flow \<and> 0 < duration flow
             then features\<lparr>bwd_bulk_rate_avg := to_double (bwd_bytes flow) / duration flow,
                           bwd_bulk_size_avg := avg_bwd_segment_size features,
                           bwd_bulk_packets_avg := to_double (bwd_packets flow) / 4\<rparr>
             else features)
      in features)"

section \<open>Concrete inputs\<close>

text \<open>A 20-byte frame, too short for an IPv4 header.\<close>

definition short_frame :: "8 word list" where
  "short_frame = replicate 20 0"

text \<open>
  A 54-byte frame: Ethernet with ethertype \<open>0x0800\<close>, an IPv4 header with IHL 5 and
  protocol 6 from 10.0.0.5 to 10.0.0.10, a TCP header from port 40000 to port 22 with SYN.
\<close>

definition syn_frame :: "8 word list" where
  "syn_frame =
     replicate 12 0 @ [0x08, 0x00] @
     [0x45, 0, 0, 40, 0, 0, 0, 0, 64, 6, 0, 0, 10, 0, 0, 5, 10, 0, 0, 10] @
     [0x9C, 0x40, 0, 22, 0, 0, 0, 0, 0, 0, 0, 0, 0x50, 0x02, 0xFF, 0xFF, 0, 0, 0, 0]"

text \<open>The same frame from 10.0.0.\<open>a\<close> with the TCP flag byte \<open>fl\<close>.\<close>

definition tcp_frame :: "8 word \<Rightarrow> 8 word \<Rightarrow> 8 word list" where
  "tcp_frame a fl =
     replicate 12 0 @ [0x08, 0x00] @
     [0x45, 0, 0, 40, 0, 0, 0, 0, 64, 6, 0, 0, 10, 0, 0, a, 10, 0, 0, 10] @
     [0x9C, 0x40, 0, 22, 0, 0, 0, 0, 0, 0, 0, 0, 0x50, fl, 0xFF, 0xFF, 0, 0, 0, 0]"

text \<open>A 42-byte UDP frame from 10.0.0.5 port 40000 to 10.0.0.10 port 53.\<close>

definition udp_frame :: "8 word list" where
  "udp_frame =
     replicate 12 0 @ [0x08, 0x00] @
     [0x45, 0, 0, 28, 0, 0, 0, 0, 64, 17, 0, 0, 10, 0, 0, 5, 10, 0, 0, 10] @
     [0x9C, 0x40, 0, 53, 0, 8, 0, 0]"

text \<open>The packet a fresh parser returns for a frame captured at \<open>ts\<close>.\<close>

definition parsed :: "8 word list \<Rightarrow> time_point \<Rightarrow> ParsedPacket" where
  "parsed frame ts =
     fst (snd (parse (Some (mem_of frame)) (of_nat (length frame)) ts PacketParser_init))"

text \<open>
  A 34-byte frame: Ethernet with ethertype \<open>0x0800\<close> and a 20-byte IPv4 header whose
  first byte is \<open>0x4F\<close> (version 4, IHL 15) and whose protocol is 6; nothing follows.
\<close>

definition ihl15_frame :: "8 word list" where
  "ihl15_frame =
     replicate 12 0 @ [0x08, 0x00] @ [0x4F, 0, 0, 0, 0, 0, 0, 0, 0, 6] @ replicate 10 0"

text \<open>The same frame with first IPv4 byte \<open>0x40\<close> (version 4, IHL 0).\<close>

definition ihl0_frame :: "8 word list" where
  "ihl0_frame =
     replicate 12 0 @ [0x08, 0x00] @ [0x40, 0, 0, 0, 0, 0, 0, 0, 0, 6] @ replicate 10 0"

text \<open>A rule object whose scalar members are all zero.\<close>

definition zero_rule :: SignatureRule where
  "zero_rule =
     \<lparr>SignatureRule.rule_id = 0, name = [], SignatureRule.description = [],
      SignatureRule.protocol = UNKNOWN_PROTO,
      src_ip_filter = [], dst_ip_filter = [], src_ports = [], dst_ports = [],
      tcp_flags_mask = 0, tcp_flags_value = 0, content_patterns = [], regex_patterns = [],
      SignatureRule.severity = LOW, action = [], enabled = False\<rparr>"


text \<open>
  A rule with no constraint but a regular expression, and an engine holding it twice,
  under the ids 2001 and 2002.
\<close>

definition regex_rule :: SignatureRule where
  "regex_rule = zero_rule\<lparr>SignatureRule.rule_id := 2001, src_ip_filter := ''any'',
     dst_ip_filter := ''any'', regex_patterns := [''select.*from''], enabled := True\<rparr>"

definition demo_engine :: RuleEngine where
  "demo_engine =
     add_rule (regex_rule\<lparr>SignatureRule.rule_id := 2002\<rparr>) (add_rule regex_rule RuleEngine_init)"

section \<open>The parser: verdicts, counters, packet ids, reads\<close>


lemmas parse_defs = parse_def validate_packet_def parse_ethernet_def parse_ipv4_def
  parse_tcp_def parse_udp_def zero_packet_def Let_def ptr_add_def ETHER_HDR_SIZE_def


lemma parse_step:
  "parse data len ts s = (s', p, r) \<Longrightarrow>
     ((packets_parsed s' = packets_parsed s + 1 \<and> parse_errors s' = parse_errors s) \<or>
      (packets_parsed s' = packets_parsed s \<and> parse_errors s' = parse_errors s + 1)) \<and>
     ParsedPacket.packet_id p = next_packet_id s \<and> next_packet_id s' = next_packet_id s + 1"
  by (auto simp: parse_defs split: option.splits if_splits prod.splits)

lemma unat_succ64: "unat x + 1 < 2 ^ 64 \<Longrightarrow> unat (x + 1 :: 64 word) = unat x + 1"
  by (simp add: unat_word_ariths)

lemma upt_shift: "[a ..< a + Suc n] = a # [Suc a ..< Suc a + n]"
proof -
  have "a < a + Suc n" by simp
  then have "[a ..< a + Suc n] = a # [Suc a ..< a + Suc n]" by (rule upt_conv_Cons)
  then show ?thesis by simp
qed

lemma strictly_increasing_ids:
  assumes "map (\<lambda>q. unat (f q)) ps = [a ..< b]"
  shows "sorted_wrt (<) (map (f :: 'a \<Rightarrow> 64 word) ps)"
proof -
  have "sorted_wrt (<) (map (\<lambda>q. unat (f q)) ps)" unfolding assms by simp
  then show ?thesis
    by (simp add: sorted_wrt_map word_less_nat_alt)
qed

lemma parse_all_run:
  "parse_all s ins = (s', ps) \<Longrightarrow>
   unat (packets_parsed s) + unat (parse_errors s) + length ins < 2 ^ 64 \<Longrightarrow>
   unat (next_packet_id s) + length ins \<le> 2 ^ 64 \<Longrightarrow>
     unat (packets_parsed s') + unat (parse_errors s') =
       unat (packets_parsed s) + unat (parse_errors s) + length ins \<and>
     map (\<lambda>q. unat (ParsedPacket.packet_id q)) ps =
       [unat (next_packet_id s) ..< unat (next_packet_id s) + length ins]"
proof (induction ins arbitrary: s s' ps)
  case Nil
  then show ?case by simp
next
  case (Cons a ins)
  obtain data len ts where a: "a = (data, len, ts)" by (cases a)
  obtain s1 p r where p1: "parse data len ts s = (s1, p, r)" by (cases "parse data len ts s")
  obtain s2 ps2 where rest: "parse_all s1 ins = (s2, ps2)" by (cases "parse_all s1 ins")
  from Cons.prems(1) a p1 rest have res: "s' = s2" "ps = p # ps2" by auto
  note st = parse_step [OF p1]
  from Cons.prems(3) have idb: "unat (next_packet_id s) + 1 < 2 ^ 64 \<or> ins = []"
    by (cases ins) auto
  have cnt: "unat (packets_parsed s1) + unat (parse_errors s1) =
        unat (packets_parsed s) + unat (parse_errors s) + 1"
    using st Cons.prems(2) by (auto simp: unat_succ64)
  show ?case
  proof (cases "ins = []")
    case True
    with rest have "s2 = s1" "ps2 = []" by auto
    with True res cnt st show ?thesis by simp
  next
    case False
    with idb have nid: "unat (next_packet_id s1) = unat (next_packet_id s) + 1"
      using st by (simp add: unat_succ64)
    have ih: "unat (packets_parsed s2) + unat (parse_errors s2) =
       unat (packets_parsed s1) + unat (parse_errors s1) + length ins \<and>
     map (\<lambda>q. unat (ParsedPacket.packet_id q)) ps2 =
       [unat (next_packet_id s1) ..< unat (next_packet_id s1) + length ins]"
      using Cons.IH [OF rest] Cons.prems(2,3) cnt nid by (simp del: upt_Suc)
    have "map (\<lambda>q. unat (ParsedPacket.packet_id q)) ps =
        unat (next_packet_id s) # [Suc (unat (next_packet_id s)) ..<
           Suc (unat (next_packet_id s)) + length ins]"
      using ih res st nid by (simp del: upt_Suc)
    also have "\<dots> = [unat (next_packet_id s) ..< unat (next_packet_id s) + length (a # ins)]"
      using upt_shift [of "unat (next_packet_id s)" "length ins"] by (simp del: upt_Suc)
    finally show ?thesis using ih res cnt by (simp del: upt_Suc)
  qed
qed

lemma match_rule_needs_transport:
  "\<not> has_tcp p \<Longrightarrow> \<not> has_udp p \<Longrightarrow>
   (enabled r \<longrightarrow> SignatureRule.protocol r = TCP \<or> SignatureRule.protocol r = UDP) \<Longrightarrow>
   match_rule p r = None"
  by (auto simp: match_rule_def)

lemma evaluate_loop_none:
  "\<forall>r \<in> set rs. match_rule p r = None \<Longrightarrow> evaluate_loop rs p e acc = (e, acc)"
  by (induction rs arbitrary: e acc) auto

lemma load_rules_need_transport:
  "r \<in> set (rules (load_rules u RuleEngine_init)) \<Longrightarrow>
     enabled r \<longrightarrow> SignatureRule.protocol r = TCP \<or> SignatureRule.protocol r = UDP"
  by (auto simp: load_rules_def add_rule_def RuleEngine_init_def Let_def)

lemma no_transport_no_alert:
  assumes "\<not> has_tcp p" "\<not> has_udp p" "rules e = rules (load_rules u RuleEngine_init)"
  shows "snd (evaluate p e) = []"
proof -
  have "\<forall>r \<in> set (rules e). match_rule p r = None"
    using assms load_rules_need_transport match_rule_needs_transport by metis
  then show ?thesis
    by (simp add: evaluate_def evaluate_loop_none)
qed

text \<open>
  Where the IPv4 header the IHL announces fits into the frame, every read stays below the
  length and a transport header that does not fit leaves both flags clear.
\<close>

lemma ihl_bytes:
  "unat ((x AND 0x0F) * 4 :: 8 word) = 4 * unat (x AND 0x0F)"
proof -
  have "unat (x AND 0x0F) \<le> unat (0x0F :: 8 word)"
    by (rule word_and_le1 [THEN word_le_nat_alt [THEN iffD1]])
  then have "unat (x AND 0x0F) \<le> 15" by simp
  then show ?thesis by (simp add: unat_word_ariths)
qed

lemma transport_length_exact:
  fixes len :: "32 word" and x :: "8 word"
  assumes "14 + 4 * unat (x AND 0x0F) \<le> unat len"
  shows "unat (len - 14 - ucast ((x AND 0x0F) * 4)) = unat len - 14 - 4 * unat (x AND 0x0F)"
proof -
  let ?h = "ucast ((x AND 0x0F) * 4) :: 32 word"
  have h: "unat ?h = 4 * unat (x AND 0x0F)"
  proof -
    have "4 * unat (x AND 0x0F) < 2 ^ 32"
      using ihl_bytes [of x] unsigned_less [of "(x AND 0x0F) * 4", where ?'a = nat]
      by simp
    then show ?thesis
      by (simp add: unsigned_ucast_eq take_bit_eq_mod ihl_bytes)
  qed
  have a: "unat (len - 14) = unat len - 14"
    using assms by (simp add: unat_sub word_le_nat_alt)
  have "?h \<le> len - 14" using assms h a by (simp add: word_le_nat_alt)
  then have "unat (len - 14 - ?h) = unat (len - 14) - unat ?h" by (rule unat_sub)
  with h a show ?thesis by simp
qed

lemma parse_reads_in_bounds:
  assumes "parse (Some mem) len ts s = (s', p, reads)"
    and "14 + 4 * unat (mem 14 AND 0x0F) \<le> unat len"
  shows "(\<forall>off \<in> set reads. off < unat len) \<and>
         (unat len - 14 - 4 * unat (mem 14 AND 0x0F) < 20 \<longrightarrow> \<not> has_tcp p) \<and>
         (unat len - 14 - 4 * unat (mem 14 AND 0x0F) < 8 \<longrightarrow> \<not> has_udp p)"
proof -
  note tl = transport_length_exact [OF assms(2)]
  have lt: "(len - 14 - ucast ((mem 14 AND 0x0F) * 4) < k) =
        (unat len - 14 - 4 * unat (mem 14 AND 0x0F) < unat k)" for k :: "32 word"
    by (simp add: word_less_nat_alt tl)
  have l34: "34 \<le> len \<Longrightarrow> 34 \<le> unat len"
    by (simp add: word_le_nat_alt)
  show ?thesis
    using assms lt [of 20] lt [of 8] l34
    by (auto simp: parse_defs ihl_bytes split: option.splits if_splits prod.splits)
qed

text \<open>
  C3. The claim: past the length, ethertype and version checks the decoder requires
  IHL * 4 >= 20 and never reads at an offset >= length; a frame too short for its transport
  header comes back with neither \<open>has_tcp\<close> nor \<open>has_udp\<close>. The code does neither. On the
  34-byte frame with IHL 15 the transport length \<open>34 - 14 - 60\<close> wraps around, the TCP
  parser accepts it, reads offsets 74 to 93 of a 34-byte buffer and the packet comes back
  with \<open>has_tcp\<close> set. The same frame with IHL 0 is accepted too, and its TCP header is
  read from offset 14, on top of the IPv4 header.
\<close>

theorem parse_reads_past_length:
  "length ihl15_frame = 34 \<and> passes_checks (Some (mem_of ihl15_frame)) 34 \<and>
   (case parse (Some (mem_of ihl15_frame)) 34 0 PacketParser_init of
      (s, p, reads) \<Rightarrow>
        has_tcp p \<and> packets_parsed s = 1 \<and> parse_errors s = 0 \<and>
        reads = [0..<34] @ [74..<94]) \<and>
   length ihl0_frame = 34 \<and> passes_checks (Some (mem_of ihl0_frame)) 34 \<and>
   (case parse (Some (mem_of ihl0_frame)) 34 0 PacketParser_init of
      (s, p, reads) \<Rightarrow>
        has_tcp p \<and> packets_parsed s = 1 \<and> reads = [0..<34] @ [14..<34])"
  by code_simp




text \<open>
  C10. Every call of \<open>parse\<close> adds one to exactly one of \<open>packets_parsed\<close> and
  \<open>parse_errors\<close>, stamps the packet with \<open>next_packet_id\<close> and adds one to that counter,
  whether the frame decodes or not. So after a run of fewer than \<open>2^64 - 1\<close> calls from the
  constructor's state the two counters add up to the number of calls and the packet ids are
  1, 2, 3, ... in call order: distinct and strictly increasing.
\<close>

theorem parse_counters_and_ids:
  "(\<forall>data len ts s s' p r.
      parse data len ts s = (s', p, r) \<longrightarrow>
        ((packets_parsed s' = packets_parsed s + 1 \<and> parse_errors s' = parse_errors s) \<or>
         (packets_parsed s' = packets_parsed s \<and> parse_errors s' = parse_errors s + 1)) \<and>
        ParsedPacket.packet_id p = next_packet_id s \<and>
        next_packet_id s' = next_packet_id s + 1) \<and>
   (\<forall>ins s' ps.
      parse_all PacketParser_init ins = (s', ps) \<and> length ins < 2 ^ 64 - 1 \<longrightarrow>
        unat (packets_parsed s') + unat (parse_errors s') = length ins \<and>
        map (\<lambda>q. unat (ParsedPacket.packet_id q)) ps = [1 ..< 1 + length ins] \<and>
        sorted_wrt (<) (map ParsedPacket.packet_id ps) \<and>
        distinct (map ParsedPacket.packet_id ps))"
proof (intro conjI allI impI)
  fix ins s' ps
  assume h: "parse_all PacketParser_init ins = (s', ps) \<and> length ins < 2 ^ 64 - 1"
  have run: "unat (packets_parsed s') + unat (parse_errors s') = length ins \<and>
     map (\<lambda>q. unat (ParsedPacket.packet_id q)) ps = [1 ..< 1 + length ins]"
    using parse_all_run [of PacketParser_init ins s' ps] h
    by (simp add: PacketParser_init_def)
  then show "unat (packets_parsed s') + unat (parse_errors s') = length ins"
    and ids: "map (\<lambda>q. unat (ParsedPacket.packet_id q)) ps = [1 ..< 1 + length ins]"
    by simp_all
  show sorted: "sorted_wrt (<) (map ParsedPacket.packet_id ps)"
    using ids by (rule strictly_increasing_ids)
  show "distinct (map ParsedPacket.packet_id ps)"
    using sorted by (simp add: strict_sorted_iff)
qed (use parse_step in blast)+

theorem parse_counters_and_ids_witness:
  "length [(Some (mem_of short_frame), 20 :: 32 word, 0 :: 64 word),
           (Some (mem_of syn_frame), 54, 1)] < (2 :: nat) ^ 64 - 1 \<and>
   unat (packets_parsed (fst (parse_all PacketParser_init
          [(Some (mem_of short_frame), 20, 0), (Some (mem_of syn_frame), 54, 1)]))) +
   unat (parse_errors (fst (parse_all PacketParser_init
          [(Some (mem_of short_frame), 20, 0), (Some (mem_of syn_frame), 54, 1)]))) = 2 \<and>
   map (\<lambda>q. unat (ParsedPacket.packet_id q)) (snd (parse_all PacketParser_init
          [(Some (mem_of short_frame), 20, 0), (Some (mem_of syn_frame), 54, 1)])) = [1, 2]"
  using parse_counters_and_ids
          [THEN conjunct2, rule_format,
           of "[(Some (mem_of short_frame), 20, 0), (Some (mem_of syn_frame), 54, 1)]"
              "fst (parse_all PacketParser_init
                 [(Some (mem_of short_frame), 20, 0), (Some (mem_of syn_frame), 54, 1)])"
              "snd (parse_all PacketParser_init
                 [(Some (mem_of short_frame), 20, 0), (Some (mem_of syn_frame), 54, 1)])"]
  by (simp add: upt_conv_Cons del: parse_all.simps)

section \<open>The connection tracker: admission, invariants, state machine, expiry\<close>


lemma cleanup_expired_lookup:
  "fmlookup (connections (cleanup_expired clock t)) k =
     (case fmlookup (connections t) k of
        None \<Rightarrow> None
      | Some f \<Rightarrow> if is_expired (clock k) (timeout_seconds t) f then None else Some f)"
  by (simp add: cleanup_expired_def Let_def split: option.splits)

lemma update_lookup_key:
  "fmlookup (connections (update clock p t)) (create_key p) =
     Some (update_flow p (case fmlookup (connections t) (create_key p) of
                            None \<Rightarrow> new_flow p | Some f \<Rightarrow> f))"
  by (simp add: update_def Let_def split: option.splits)











lemma update_never_rejects:
  "fmlookup (connections (update clock p t)) (create_key p) \<noteq> None"
  by (simp add: update_lookup_key)

text \<open>
  C1. The claim: when the table holds \<open>max_connections\<close> entries, \<open>update\<close> runs the expiry
  and, if the table is still full, rejects the new flow, so that the size never exceeds
  \<open>max_connections\<close>. The code runs the expiry and then inserts in every case. With
  \<open>max_connections = 2\<close> and three SYN packets from three sources, all stamped with the
  clock reading of the updates, the table ends with three entries.
\<close>

theorem update_exceeds_max_connections:
  "max_connections (ConnectionTracker_init 120 2) = 2 \<and>
   size_of (connections (update_all (ConnectionTracker_init 120 2)
     [(const_clock 0, parsed (tcp_frame 1 2) 0), (const_clock 0, parsed (tcp_frame 2 2) 0),
      (const_clock 0, parsed (tcp_frame 3 2) 0)])) = 3"
  by code_simp






text \<open>
  C7, as stated, fails: the age \<open>is_expired\<close> compares with \<open>timeout_seconds\<close> is a count
  of whole seconds, taken from a 64-bit difference of nanosecond counts. With a timeout of
  120 seconds, a flow last seen 120.5 seconds before the clock reading stays in the
  table; so does a flow last seen at the least time point, \<open>-2^63\<close> nanoseconds, one second
  after the epoch, since the difference wraps around to a negative count.
\<close>

theorem cleanup_expired_counterexample:
  "timeout_seconds (ConnectionTracker_init 120 100) = 120 \<and>
   map_option last_seen
     (fmlookup (connections (cleanup_expired (const_clock 120500000000)
        (update (const_clock 0) (parsed (tcp_frame 1 2) 0) (ConnectionTracker_init 120 100))))
        (create_key (parsed (tcp_frame 1 2) 0))) = Some 0 \<and>
   map_option last_seen
     (fmlookup (connections (cleanup_expired (const_clock 1000000000)
        (update (const_clock 0) (parsed (tcp_frame 1 2) 0x8000000000000000)
           (ConnectionTracker_init 120 100))))
        (create_key (parsed (tcp_frame 1 2) 0))) = Some 0x8000000000000000 \<and>
   sint (0x8000000000000000 :: 64 word) = - (2 ^ 63)"
  by code_simp

text \<open>
  C7, amended. After \<open>cleanup_expired\<close> the table holds exactly the entries it held before
  whose state is not \<open>CLOSED\<close> and whose age does not exceed \<open>timeout_seconds\<close>, the age
  being the whole seconds (the fraction dropped) of the 64-bit nanosecond difference
  between the clock reading taken when the entry is examined and \<open>last_seen\<close>; every other
  entry is gone, and the entries that stay are unchanged.
\<close>

theorem cleanup_expired_exact:
  "fmlookup (connections (cleanup_expired clock t)) k =
     (case fmlookup (connections t) k of
        None \<Rightarrow> None
      | Some f \<Rightarrow>
          if uint (timeout_seconds t) < sint (clock k - last_seen f) sdiv 1000000000 \<or>
             state f = CLOSED
          then None else Some f)"
  by (simp add: cleanup_expired_lookup is_expired_def to_seconds_def ticks_per_second_def
      time_diff_def split: option.splits)

section \<open>The rule engine: what a rule checks, alert ids, order, disabled rules\<close>

lemma match_rule_ignores_regex:
  "match_rule p (r\<lparr>regex_patterns := x\<rparr>) = match_rule p r"
  by (simp add: match_rule_def)


lemma evaluate_loop_char:
  "evaluate_loop rs p e acc = (e', out) \<Longrightarrow>
     \<exists>new. out = acc @ new \<and> length new = length (matching p rs) \<and>
       map Alert.rule_id new = map SignatureRule.rule_id (matching p rs) \<and>
       rules e' = rules e \<and>
       (unat (next_alert_id e) + length (matching p rs) < 2 ^ 64 \<longrightarrow>
          map (\<lambda>a. unat (alert_id a)) new =
            [unat (next_alert_id e) ..< unat (next_alert_id e) + length new] \<and>
          unat (next_alert_id e') = unat (next_alert_id e) + length new)"
proof (induction rs arbitrary: e acc e' out)
  case Nil
  then show ?case by simp
next
  case (Cons r rs)
  show ?case
  proof (cases "match_rule p r")
    case None
    with Cons.prems have "evaluate_loop rs p e acc = (e', out)" by simp
    from Cons.IH [OF this] None show ?thesis by simp
  next
    case (Some m)
    let ?e0 = "e\<lparr>rule_matches := rule_matches e + 1\<rparr>"
    let ?a = "fst (create_alert r p m ?e0)"
    let ?e1 = "snd (create_alert r p m ?e0)"
    have e1: "next_alert_id ?e1 = next_alert_id e + 1" "rules ?e1 = rules e"
      "alert_id ?a = next_alert_id e" "Alert.rule_id ?a = SignatureRule.rule_id r"
      by (simp_all add: create_alert_def)
    from Cons.prems Some have "evaluate_loop rs p ?e1 (acc @ [?a]) = (e', out)"
      by (simp add: case_prod_beta)
    from Cons.IH [OF this] obtain new where new: "out = (acc @ [?a]) @ new"
      "length new = length (matching p rs)"
      "map Alert.rule_id new = map SignatureRule.rule_id (matching p rs)"
      "rules e' = rules ?e1"
      "unat (next_alert_id ?e1) + length (matching p rs) < 2 ^ 64 \<longrightarrow>
          map (\<lambda>a. unat (alert_id a)) new =
            [unat (next_alert_id ?e1) ..< unat (next_alert_id ?e1) + length new] \<and>
          unat (next_alert_id e') = unat (next_alert_id ?e1) + length new"
      by blast
    have ids: "map (\<lambda>a. unat (alert_id a)) (?a # new) =
            [unat (next_alert_id e) ..< unat (next_alert_id e) + length (?a # new)] \<and>
          unat (next_alert_id e') = unat (next_alert_id e) + length (?a # new)"
      if h: "unat (next_alert_id e) + length (matching p (r # rs)) < 2 ^ 64"
    proof -
      from h Some have b: "unat (next_alert_id e) + 1 < 2 ^ 64"
        and b2: "unat (next_alert_id e) + 1 + length (matching p rs) < 2 ^ 64" by simp_all
      have n1: "unat (next_alert_id ?e1) = unat (next_alert_id e) + 1"
        using unat_succ64 [OF b] e1(1) by simp
      from new(5) n1 b2 have
        "map (\<lambda>a. unat (alert_id a)) new =
            [Suc (unat (next_alert_id e)) ..< Suc (unat (next_alert_id e)) + length new]"
        "unat (next_alert_id e') = Suc (unat (next_alert_id e)) + length new"
        by (simp_all del: upt_Suc)
      then show ?thesis
        using e1(3) upt_shift [of "unat (next_alert_id e)" "length new"]
        by (simp del: upt_Suc)
    qed
    show ?thesis
      apply (rule exI [of _ "?a # new"])
      using new(1-4) e1 Some ids by (simp del: upt_Suc)
  qed
qed

lemma evaluate_char:
  assumes "evaluate p e = (e', alerts)"
  shows "length alerts = length (matching p (rules e)) \<and>
       map Alert.rule_id alerts = map SignatureRule.rule_id (matching p (rules e)) \<and>
       rules e' = rules e \<and>
       (unat (next_alert_id e) + length alerts < 2 ^ 64 \<longrightarrow>
          map (\<lambda>a. unat (alert_id a)) alerts =
            [unat (next_alert_id e) ..< unat (next_alert_id e) + length alerts] \<and>
          unat (next_alert_id e') = unat (next_alert_id e) + length alerts)"
proof -
  let ?e0 = "e\<lparr>packets_evaluated := packets_evaluated e + 1\<rparr>"
  obtain e1 out where l: "evaluate_loop (rules e) p ?e0 [] = (e1, out)"
    by (cases "evaluate_loop (rules e) p ?e0 []")
  with assms have r: "alerts = out" "next_alert_id e' = next_alert_id e1" "rules e' = rules e1"
    by (auto simp: evaluate_def)
  from evaluate_loop_char [OF l] r show ?thesis by auto
qed

lemma evaluate_all_ids:
  "evaluate_all e ps = (e', alerts) \<Longrightarrow>
   unat (next_alert_id e) + length alerts < 2 ^ 64 \<Longrightarrow>
     map (\<lambda>a. unat (alert_id a)) alerts =
       [unat (next_alert_id e) ..< unat (next_alert_id e) + length alerts] \<and>
     unat (next_alert_id e') = unat (next_alert_id e) + length alerts"
proof (induction ps arbitrary: e e' alerts)
  case Nil
  then show ?case by simp
next
  case (Cons p ps)
  obtain e1 a1 where s1: "evaluate p e = (e1, a1)" by (cases "evaluate p e")
  obtain e2 a2 where s2: "evaluate_all e1 ps = (e2, a2)" by (cases "evaluate_all e1 ps")
  from Cons.prems(1) s1 s2 have r: "e' = e2" "alerts = a1 @ a2" by auto
  from Cons.prems(2) r have b1: "unat (next_alert_id e) + length a1 < 2 ^ 64" by simp
  from evaluate_char [OF s1] b1 have
    i1: "map (\<lambda>a. unat (alert_id a)) a1 =
            [unat (next_alert_id e) ..< unat (next_alert_id e) + length a1]"
    and n1: "unat (next_alert_id e1) = unat (next_alert_id e) + length a1"
    by simp_all
  from Cons.prems(2) r n1 have b2: "unat (next_alert_id e1) + length a2 < 2 ^ 64" by simp
  from Cons.IH [OF s2 b2] have
    i2: "map (\<lambda>a. unat (alert_id a)) a2 =
            [unat (next_alert_id e1) ..< unat (next_alert_id e1) + length a2]"
    and n2: "unat (next_alert_id e2) = unat (next_alert_id e1) + length a2"
    by simp_all
  have "[unat (next_alert_id e) ..< unat (next_alert_id e) + length a1 + length a2] =
      [unat (next_alert_id e) ..< unat (next_alert_id e) + length a1] @
      [unat (next_alert_id e) + length a1 ..< unat (next_alert_id e) + length a1 + length a2]"
    by (rule upt_add_eq_append) simp
  with i1 i2 n1 n2 r show ?case by (simp add: add.assoc)
qed

lemma disabled_never_matches: "\<not> enabled r \<Longrightarrow> match_rule p r = None"
  by (simp add: match_rule_def)

lemma evaluate_loop_enabled_only:
  "evaluate_loop (filter enabled rs) p e acc = evaluate_loop rs p e acc"
  by (induction rs arbitrary: e acc) (auto simp: disabled_never_matches split: option.splits)

lemma evaluate_loop_cong:
  "next_alert_id e1 = next_alert_id e2 \<Longrightarrow>
     snd (evaluate_loop rs p e1 acc) = snd (evaluate_loop rs p e2 acc)"
proof (induction rs arbitrary: e1 e2 acc)
  case Nil
  then show ?case by simp
next
  case (Cons r rs)
  show ?case
  proof (cases "match_rule p r")
    case None
    then show ?thesis using Cons.IH [OF Cons.prems] by simp
  next
    case (Some m)
    let ?c1 = "create_alert r p m (e1\<lparr>rule_matches := rule_matches e1 + 1\<rparr>)"
    let ?c2 = "create_alert r p m (e2\<lparr>rule_matches := rule_matches e2 + 1\<rparr>)"
    have a: "fst ?c1 = fst ?c2"
      by (simp add: create_alert_def Cons.prems)
    have "snd (evaluate_loop rs p (snd ?c1) (acc @ [fst ?c1])) =
          snd (evaluate_loop rs p (snd ?c2) (acc @ [fst ?c1]))"
      by (rule Cons.IH) (simp add: create_alert_def Cons.prems)
    with a show ?thesis using Some by (simp add: case_prod_beta)
  qed
qed

lemma evaluate_enabled_only:
  "snd (evaluate p (e\<lparr>rules := filter enabled (rules e)\<rparr>)) = snd (evaluate p e)"
proof -
  have "snd (evaluate_loop (filter enabled (rules e)) p
           (e\<lparr>rules := filter enabled (rules e),
              packets_evaluated := packets_evaluated e + 1\<rparr>) []) =
        snd (evaluate_loop (filter enabled (rules e)) p
           (e\<lparr>packets_evaluated := packets_evaluated e + 1\<rparr>) [])"
    by (rule evaluate_loop_cong) simp
  then show ?thesis
    by (simp add: evaluate_def case_prod_beta evaluate_loop_enabled_only)
qed

lemma enable_first_disables:
  "distinct (map SignatureRule.rule_id rs) \<Longrightarrow> r \<in> set (enable_first rid False rs) \<Longrightarrow>
     SignatureRule.rule_id r = rid \<Longrightarrow> \<not> enabled r"
proof (induction rs)
  case Nil
  then show ?case by simp
next
  case (Cons a rs)
  show ?case
  proof (cases "SignatureRule.rule_id a = rid")
    case True
    with Cons.prems show ?thesis by (auto simp: image_iff)
  next
    case False
    with Cons show ?thesis by auto
  qed
qed

lemma disabled_rule_silent:
  assumes "distinct (map SignatureRule.rule_id (rules e))"
  shows "rid \<notin> Alert.rule_id ` set (snd (evaluate p (enable_rule rid False e)))"
proof
  assume "rid \<in> Alert.rule_id ` set (snd (evaluate p (enable_rule rid False e)))"
  then have "rid \<in> set (map Alert.rule_id (snd (evaluate p (enable_rule rid False e))))"
    by simp
  also have "map Alert.rule_id (snd (evaluate p (enable_rule rid False e))) =
      map SignatureRule.rule_id (matching p (rules (enable_rule rid False e)))"
    using evaluate_char [of p "enable_rule rid False e"] by (simp add: prod_eq_iff)
  finally obtain r where r: "r \<in> set (enable_first rid False (rules e))"
      "match_rule p r \<noteq> None" "SignatureRule.rule_id r = rid"
    by (auto simp: enable_rule_def)
  from enable_first_disables [OF assms r(1) r(3)] have "\<not> enabled r" .
  with r(2) show False by (simp add: disabled_never_matches)
qed


text \<open>
  C2. The claim: a rule's regular expressions are the last step of the match, and a rule
  with a non-empty \<open>regex_patterns\<close> alerts only if one of them matches the payload. The
  code has \<open>match_regex\<close> but \<open>evaluate\<close> never calls it: the outcome of a rule does not
  depend on its \<open>regex_patterns\<close>. A rule whose only constraint is the regular expression
  \<open>select.*from\<close> alerts on a TCP SYN packet without payload, on which \<open>match_regex\<close>
  returns false whatever the regular-expression library does.
\<close>

theorem evaluate_ignores_regex:
  "(\<forall>rs. \<not> match_regex rs (payload (parsed (tcp_frame 1 2) 0))
      (payload_length (parsed (tcp_frame 1 2) 0)) (regex_patterns regex_rule)) \<and>
   map Alert.rule_id (snd (evaluate (parsed (tcp_frame 1 2) 0)
      (add_rule regex_rule RuleEngine_init))) = [2001]"
proof -
  have "payload_length (parsed (tcp_frame 1 2) 0) = 0" by code_simp
  then have "\<forall>rs. \<not> match_regex rs (payload (parsed (tcp_frame 1 2) 0))
      (payload_length (parsed (tcp_frame 1 2) 0)) (regex_patterns regex_rule)"
    by (simp add: match_regex_def split: option.splits)
  moreover have "map Alert.rule_id (snd (evaluate (parsed (tcp_frame 1 2) 0)
      (add_rule regex_rule RuleEngine_init))) = [2001]"
    by code_simp
  ultimately show ?thesis by blast
qed


text \<open>
  C8. Over a run of the engine that emits fewer alerts than the 64-bit id counter has
  values left, the alert ids are consecutive from \<open>next_alert_id\<close>, so each is strictly
  greater than every earlier one. The alerts of a packet are those of the enabled rules
  alone; after \<open>enable_rule rid false\<close> on rules with distinct ids no alert carries \<open>rid\<close>.
  The alerts of one packet are, in rule-list order, those of the rules that match it, and
  \<open>add_rule\<close> appends to the rule list.
\<close>

theorem alerts_increasing_ordered_suppressed:
  "(\<forall>e ps e' alerts.
      evaluate_all e ps = (e', alerts) \<and> unat (next_alert_id e) + length alerts < 2 ^ 64 \<longrightarrow>
        map (\<lambda>a. unat (alert_id a)) alerts =
          [unat (next_alert_id e) ..< unat (next_alert_id e) + length alerts] \<and>
        sorted_wrt (<) (map alert_id alerts)) \<and>
   (\<forall>p e. snd (evaluate p (e\<lparr>rules := filter enabled (rules e)\<rparr>)) = snd (evaluate p e)) \<and>
   (\<forall>p e rid.
      distinct (map SignatureRule.rule_id (rules e)) \<longrightarrow>
        rid \<notin> Alert.rule_id ` set (snd (evaluate p (enable_rule rid False e)))) \<and>
   (\<forall>p e. map Alert.rule_id (snd (evaluate p e)) =
            map SignatureRule.rule_id (matching p (rules e))) \<and>
   (\<forall>r e. rules (add_rule r e) = rules e @ [r])"
proof (intro conjI allI impI)
  fix e ps e' alerts
  assume h: "evaluate_all e ps = (e', alerts) \<and>
      unat (next_alert_id e) + length alerts < 2 ^ 64"
  then show ids: "map (\<lambda>a. unat (alert_id a)) alerts =
          [unat (next_alert_id e) ..< unat (next_alert_id e) + length alerts]"
    using evaluate_all_ids [of e ps e' alerts] by simp
  show "sorted_wrt (<) (map alert_id alerts)"
    using ids by (rule strictly_increasing_ids)
next
  fix p e
  show "snd (evaluate p (e\<lparr>rules := filter enabled (rules e)\<rparr>)) = snd (evaluate p e)"
    by (rule evaluate_enabled_only)
next
  fix p and e :: RuleEngine and rid
  assume "distinct (map SignatureRule.rule_id (rules e))"
  then show "rid \<notin> Alert.rule_id ` set (snd (evaluate p (enable_rule rid False e)))"
    by (rule disabled_rule_silent)
next
  fix p e
  show "map Alert.rule_id (snd (evaluate p e)) =
            map SignatureRule.rule_id (matching p (rules e))"
    using evaluate_char [of p e] by (simp add: prod_eq_iff)
next
  fix r e
  show "rules (add_rule r e) = rules e @ [r]"
    by (simp add: add_rule_def)
qed

theorem alerts_increasing_ordered_suppressed_witness:
  "map (\<lambda>a. unat (alert_id a))
     (snd (evaluate_all demo_engine [parsed (tcp_frame 1 2) 0, parsed udp_frame 1])) =
     [1, 2, 3, 4] \<and>
   2001 \<notin> Alert.rule_id `
     set (snd (evaluate (parsed (tcp_frame 1 2) 0) (enable_rule 2001 False demo_engine)))"
proof -
  let ?ps = "[parsed (tcp_frame 1 2) 0, parsed udp_frame 1]"
  have n: "unat (next_alert_id demo_engine) = 1" by code_simp
  have l: "length (snd (evaluate_all demo_engine ?ps)) = 4" by code_simp
  have d: "distinct (map SignatureRule.rule_id (rules demo_engine))" by code_simp
  have u: "[1 ..< 1 + 4] = [1, 2, 3, 4 :: nat]" by code_simp
  have c: "evaluate_all demo_engine ?ps =
      (fst (evaluate_all demo_engine ?ps), snd (evaluate_all demo_engine ?ps))"
    by (rule prod.collapse [symmetric])
  have b: "unat (next_alert_id demo_engine) + length (snd (evaluate_all demo_engine ?ps))
      < 2 ^ 64"
    unfolding n l by simp
  have ids: "map (\<lambda>a. unat (alert_id a)) (snd (evaluate_all demo_engine ?ps)) =
      [1, 2, 3, 4]"
    using alerts_increasing_ordered_suppressed
            [THEN conjunct1, rule_format, OF conjI [OF c b], THEN conjunct1]
    unfolding n l u .
  have "2001 \<notin> Alert.rule_id `
     set (snd (evaluate (parsed (tcp_frame 1 2) 0) (enable_rule 2001 False demo_engine)))"
    using alerts_increasing_ordered_suppressed
            [THEN conjunct2, THEN conjunct2, THEN conjunct1, rule_format, OF d] .
  with ids show ?thesis by blast
qed

section \<open>The feature extractor: bulk-transfer features\<close>

text \<open>
  C9. With at least four forward packets and a positive duration the three forward bulk
  features are \<open>fwd_bytes / duration\<close>, the average forward segment size and
  \<open>fwd_packets / 4\<close>; otherwise all three are 0. The same holds backward. The average
  segment size is bytes by packets, 0 without packets.
\<close>

theorem bulk_transfer_features:
  "fwd_bulk_rate_avg (extract_features flow) =
     (if 4 \<le> fwd_packets flow \<and> 0 < duration flow
      then to_double (fwd_bytes flow) / duration flow else 0) \<and>
   fwd_bulk_size_avg (extract_features flow) =
     (if 4 \<le> fwd_packets flow \<and> 0 < duration flow
      then avg_fwd_segment_size (extract_features flow) else 0) \<and>
   fwd_bulk_packets_avg (extract_features flow) =
     (if 4 \<le> fwd_packets flow \<and> 0 < duration flow
      then to_double (fwd_packets flow) / 4 else 0) \<and>
   bwd_bulk_rate_avg (extract_features flow) =
     (if 4 \<le> bwd_packets flow \<and> 0 < duration flow
      then to_double (bwd_bytes flow) / duration flow else 0) \<and>
   bwd_bulk_size_avg (extract_features flow) =
     (if 4 \<le> bwd_packets flow \<and> 0 < duration flow
      then avg_bwd_segment_size (extract_features flow) else 0) \<and>
   bwd_bulk_packets_avg (extract_features flow) =
     (if 4 \<le> bwd_packets flow \<and> 0 < duration flow
      then to_double (bwd_packets flow) / 4 else 0) \<and>
   avg_fwd_segment_size (extract_features flow) =
     (if 0 < fwd_packets flow
      then to_double (fwd_bytes flow) / to_double (fwd_packets flow) else 0) \<and>
   avg_bwd_segment_size (extract_features flow) =
     (if 0 < bwd_packets flow
      then to_double (bwd_bytes flow) / to_double (bwd_packets flow) else 0)"
  by (simp add: extract_features_def Let_def)

end
